theory Spec2Isabelle
  imports Complex_Main "HOL-Library.Multiset"
begin

section \<open>The slideshow controller and the viewport scaler\<close>

text \<open>
  A shallow embedding of \<^verbatim>\<open>src/scripts/slideshow.js\<close> (class \<^verbatim>\<open>Slideshow\<close>) and of
  \<^verbatim>\<open>src/scripts/viewport-scale.js\<close>.

  Conventions of the embedding:
  \<^item> JavaScript numbers are exact reals (the rounding of IEEE doubles and NaN are not
    modelled, except that the cursor \<open>currentIndex\<close> is \<open>None\<close> where the source
    computes NaN);
  \<^item> \<^verbatim>\<open>null\<close>/\<^verbatim>\<open>undefined\<close> is \<open>None\<close>; the truthiness tests of the source are
    written out (\<open>truthy_num\<close>, \<open>truthy_id\<close>);
  \<^item> DOM elements live in a store \<open>elems\<close> indexed by their identity (a \<open>nat\<close>); the
    container is the list of its children in document order, or \<open>None\<close> when
    \<^verbatim>\<open>getElementById\<close> found nothing;
  \<^item> the browser's timer table, its animation-frame queue, the console, the set of
    hovered elements and the image loads in flight are fields of the same state, after
    the fields of the class;
  \<^item> what the environment chooses is a parameter: the clock (\<open>now\<close>), the draws of
    \<^verbatim>\<open>Math.random()\<close>, and \<open>sortRandom\<close>, the result of
    \<^verbatim>\<open>[...xs].sort(() => Math.random() - 0.5)\<close>.

  The method \<^verbatim>\<open>calculateImageSize\<close> is called nowhere in the class and is left out.
\<close>

subsection \<open>Data\<close>

record element =
  src :: "string option"
  classList :: "string list"
  alt :: string
  style_width :: "real option"
  style_height :: "real option"
  style_left :: "real option"
  style_top :: "real option"
  style_zIndex :: "string option"
  hover_listeners :: bool

text \<open>The callbacks the source passes to \<^verbatim>\<open>setTimeout\<close>.\<close>

datatype callback =
    RotationTick          \<comment> \<open>\<^verbatim>\<open>nextImageTimeout = null; if (!isPaused) showNextImage()\<close>\<close>
  | RotationTickAlways    \<comment> \<open>\<^verbatim>\<open>nextImageTimeout = null; showNextImage()\<close> (load-error path)\<close>
  | FadeOutRemoval nat    \<comment> \<open>removal of the captured previous image\<close>

datatype log_entry = ConsoleError string | ConsoleWarn string

record world =
  container :: "nat list option"
  imagePaths :: "string list"
  displayDuration :: real
  transitionDuration :: real
  viewportPercentage :: real
  marginX :: real
  marginY :: real
  currentIndex :: "nat option"
  shuffledImages :: "string list"
  currentImage :: "nat option"
  viewportWidth :: real
  viewportHeight :: real
  nextImageTimeout :: "nat option"
  isPaused :: bool
  imageShowTime :: "real option"
  fullDisplayDuration :: "real option"
  cssViewport :: "real \<times> real"
  elems :: "nat \<Rightarrow> element"
  nextElem :: nat
  timers :: "(nat \<times> callback \<times> real) list"
  nextTimer :: nat
  frames :: "nat list"
  loading :: "nat list"
  hovered :: "nat set"
  console :: "log_entry list"

record options_in =
  opt_displayDuration :: "real option"
  opt_transitionDuration :: "real option"
  opt_viewportPercentage :: "real option"
  opt_marginX :: "real option"
  opt_marginY :: "real option"

subsection \<open>Platform operations\<close>

definition truthy_num :: "real option \<Rightarrow> bool" where
  "truthy_num v = (case v of None \<Rightarrow> False | Some x \<Rightarrow> x \<noteq> 0)"

definition truthy_id :: "nat option \<Rightarrow> bool" where
  "truthy_id h = (case h of None \<Rightarrow> False | Some n \<Rightarrow> n \<noteq> 0)"

text \<open>\<^verbatim>\<open>setTimeout\<close> hands out a fresh positive handle; \<^verbatim>\<open>clearTimeout\<close> drops the entry.\<close>

definition setTimeout :: "callback \<Rightarrow> real \<Rightarrow> world \<Rightarrow> nat \<times> world" where
  "setTimeout cb delay w =
     (let h = Suc (nextTimer w)
      in (h, w\<lparr>timers := timers w @ [(h, cb, delay)], nextTimer := h\<rparr>))"

definition clearTimeout :: "nat \<Rightarrow> world \<Rightarrow> world" where
  "clearTimeout h w = w\<lparr>timers := filter (\<lambda>t. fst t \<noteq> h) (timers w)\<rparr>"

definition classList_add :: "string \<Rightarrow> string list \<Rightarrow> string list" where
  "classList_add c cs = (if c \<in> set cs then cs else cs @ [c])"

definition classList_remove :: "string \<Rightarrow> string list \<Rightarrow> string list" where
  "classList_remove c cs = removeAll c cs"

definition upd_elem :: "nat \<Rightarrow> (element \<Rightarrow> element) \<Rightarrow> world \<Rightarrow> world" where
  "upd_elem i f w = w\<lparr>elems := (elems w)(i := f (elems w i))\<rparr>"

text \<open>\<^verbatim>\<open>new Image()\<close>: an element with nothing set.\<close>

definition new_Image :: element where
  "new_Image = \<lparr>src = None, classList = [], alt = [], style_width = None,
     style_height = None, style_left = None, style_top = None, style_zIndex = None,
     hover_listeners = False\<rparr>"

text \<open>\<^verbatim>\<open>el.remove()\<close> for a child of the container.\<close>

definition dom_remove :: "nat \<Rightarrow> world \<Rightarrow> world" where
  "dom_remove i w = w\<lparr>container := map_option (removeAll i) (container w)\<rparr>"

text \<open>The pending timers whose callback is a rotation tick.\<close>

definition is_rotation :: "nat \<times> callback \<times> real \<Rightarrow> bool" where
  "is_rotation t = (fst (snd t) = RotationTick \<or> fst (snd t) = RotationTickAlways)"

definition rotation_timers :: "world \<Rightarrow> (nat \<times> callback \<times> real) list" where
  "rotation_timers w = filter is_rotation (timers w)"

subsection \<open>The class\<close>

definition updateViewportDimensions :: "world \<Rightarrow> world" where
  "updateViewportDimensions w = w\<lparr>cssViewport := (viewportWidth w, viewportHeight w)\<rparr>"

definition pause :: "world \<Rightarrow> world" where
  "pause w =
     (if isPaused w then w
      else let w1 = w\<lparr>isPaused := True\<rparr>
           in if truthy_id (nextImageTimeout w1)
              then (clearTimeout (the (nextImageTimeout w1)) w1)\<lparr>nextImageTimeout := None\<rparr>
              else w1)"

text \<open>The delay \<^verbatim>\<open>resume\<close> computes before it looks at the current image.\<close>

definition resume_delay :: "real \<Rightarrow> world \<Rightarrow> real" where
  "resume_delay now w =
     (if truthy_num (imageShowTime w) \<and> truthy_num (fullDisplayDuration w)
      then let elapsed = now - the (imageShowTime w);
               remaining = max 0 (the (fullDisplayDuration w) - elapsed)
           in remaining
      else transitionDuration w + displayDuration w)"

definition resume :: "real \<Rightarrow> world \<Rightarrow> world" where
  "resume now w =
     (if \<not> isPaused w then w
      else let w1 = w\<lparr>isPaused := False\<rparr>;
               delay = resume_delay now w1
           in if currentImage w1 \<noteq> None
              then (case setTimeout RotationTick delay w1 of
                      (h, w2) \<Rightarrow> w2\<lparr>nextImageTimeout := Some h\<rparr>)
              else w1)"

text \<open>
  \<^verbatim>\<open>querySelectorAll('.slideshow-image')\<close> over the children of the container, then
  \<^verbatim>\<open>remove()\<close> on each one that is not the current image.
\<close>

definition is_stray :: "world \<Rightarrow> nat \<Rightarrow> bool" where
  "is_stray w i = (''slideshow-image'' \<in> set (classList (elems w i)) \<and> Some i \<noteq> currentImage w)"

definition cleanupStuckImages :: "real \<Rightarrow> world \<Rightarrow> world" where
  "cleanupStuckImages now w =
     (case container w of
        None \<Rightarrow> w
      | Some kids \<Rightarrow>
          let w1 = w\<lparr>container := Some (filter (\<lambda>i. \<not> is_stray w i) kids)\<rparr>;
              w2 = (case currentImage w1 of
                      None \<Rightarrow> w1
                    | Some c \<Rightarrow>
                        if ''active'' \<notin> set (classList (elems w1 c))
                        then upd_elem c (\<lambda>e. e\<lparr>classList := classList_add ''active'' (classList e)\<rparr>) w1
                        else w1)
          in (case currentImage w2 of
                None \<Rightarrow> w2
              | Some c \<Rightarrow>
                  if isPaused w2 then (if c \<notin> hovered w2 then resume now w2 else w2)
                  else w2))"

text \<open>\<^verbatim>\<open>shuffledImages[currentIndex]\<close> (undefined out of range) and the advance of the cursor.\<close>

definition imagePath_at :: "world \<Rightarrow> string option" where
  "imagePath_at w =
     (case currentIndex w of
        None \<Rightarrow> None
      | Some i \<Rightarrow> if i < length (shuffledImages w) then Some (shuffledImages w ! i) else None)"

definition next_index :: "world \<Rightarrow> nat option" where
  "next_index w =
     (case currentIndex w of
        None \<Rightarrow> None
      | Some i \<Rightarrow> if length (shuffledImages w) = 0 then None
                  else Some ((i + 1) mod length (shuffledImages w)))"

definition showNextImage :: "(string list \<Rightarrow> string list) \<Rightarrow> world \<Rightarrow> world" where
  "showNextImage sortRandom w =
     (case container w of
        None \<Rightarrow> w\<lparr>console := console w @ [ConsoleError ''Slideshow container not found'']\<rparr>
      | Some kids \<Rightarrow>
          let imagePath = imagePath_at w;
              w1 = w\<lparr>currentIndex := next_index w\<rparr>;
              w2 = (if currentIndex w1 = Some 0
                    then w1\<lparr>shuffledImages := sortRandom (imagePaths w1)\<rparr> else w1);
              img = nextElem w2
          in w2\<lparr>elems := (elems w2)(img := new_Image\<lparr>src := imagePath,
                      classList := [''slideshow-image''], alt := ''Portfolio image''\<rparr>),
                 nextElem := Suc img,
                 loading := loading w2 @ [img]\<rparr>)"

definition getRandomCenterpoint :: "world \<Rightarrow> real \<Rightarrow> real \<Rightarrow> real \<Rightarrow> real \<Rightarrow> real \<times> real" where
  "getRandomCenterpoint w imageWidth imageHeight random1 random2 =
     (let mX = (viewportWidth w * marginX w) / 100;
          mY = (viewportHeight w * marginY w) / 100;
          minX = mX;
          maxX = viewportWidth w - mX;
          minY = mY;
          maxY = viewportHeight w - mY;
          centerX = random1 * (maxX - minX) + minX;
          centerY = random2 * (maxY - minY) + minY
      in (centerX, centerY))"

text \<open>
  The \<^verbatim>\<open>onload\<close> handler of the image \<open>img\<close> created by \<^verbatim>\<open>showNextImage\<close>. It is \<open>None\<close>
  where the source throws (\<^verbatim>\<open>this.container.appendChild\<close> on a null container).
\<close>

definition img_onload ::
  "real \<Rightarrow> real \<Rightarrow> real \<Rightarrow> real \<Rightarrow> real \<Rightarrow> nat \<Rightarrow> world \<Rightarrow> world option" where
  "img_onload now naturalWidth naturalHeight random1 random2 img w =
     (case container w of
        None \<Rightarrow> None
      | Some kids \<Rightarrow>
          let centerpoint = getRandomCenterpoint w naturalWidth naturalHeight random1 random2;
              w1 = upd_elem img (\<lambda>e. e\<lparr>style_width := Some naturalWidth,
                     style_height := Some naturalHeight,
                     style_left := Some (fst centerpoint),
                     style_top := Some (snd centerpoint)\<rparr>) w;
              w2 = w1\<lparr>container := Some (removeAll img kids @ [img])\<rparr>;
              previousImage = currentImage w2;
              w3 = (case previousImage of
                      None \<Rightarrow> w2
                    | Some p \<Rightarrow>
                        snd (setTimeout (FadeOutRemoval p) (transitionDuration w2)
                          (upd_elem p (\<lambda>e. e\<lparr>classList := classList_remove ''active'' (classList e)\<rparr>) w2)));
              w4 = w3\<lparr>frames := frames w3 @ [img]\<rparr>;
              w5 = upd_elem img (\<lambda>e. e\<lparr>hover_listeners := True\<rparr>) w4;
              duration = transitionDuration w5 + displayDuration w5;
              w6 = w5\<lparr>fullDisplayDuration := Some duration, imageShowTime := Some now\<rparr>;
              w7 = (if truthy_id (nextImageTimeout w6)
                    then clearTimeout (the (nextImageTimeout w6)) w6 else w6)
          in Some (if \<not> isPaused w7
                   then (case setTimeout RotationTick duration w7 of
                           (h, w8) \<Rightarrow> w8\<lparr>nextImageTimeout := Some h\<rparr>)
                   else w7))"

text \<open>The \<^verbatim>\<open>onerror\<close> handler of the image \<open>img\<close> created by \<^verbatim>\<open>showNextImage\<close>.\<close>

definition img_onerror :: "nat \<Rightarrow> world \<Rightarrow> world" where
  "img_onerror img w =
     (let w1 = w\<lparr>console := console w @
                 [ConsoleWarn (''Failed to load image: '' @
                    (case src (elems w img) of None \<Rightarrow> ''undefined'' | Some p \<Rightarrow> p))]\<rparr>;
          w2 = (if truthy_id (nextImageTimeout w1)
                then clearTimeout (the (nextImageTimeout w1)) w1 else w1)
      in (case setTimeout RotationTickAlways (transitionDuration w2 + displayDuration w2) w2 of
            (h, w3) \<Rightarrow> w3\<lparr>nextImageTimeout := Some h\<rparr>))"

text \<open>The callback given to \<^verbatim>\<open>requestAnimationFrame\<close> in \<^verbatim>\<open>onload\<close>.\<close>

definition activate :: "nat \<Rightarrow> world \<Rightarrow> world" where
  "activate img w =
     (let w1 = upd_elem img (\<lambda>e. e\<lparr>classList := classList_add ''active'' (classList e),
                  style_zIndex := Some ''10''\<rparr>) w;
          w2 = (case currentImage w1 of
                  None \<Rightarrow> w1
                | Some c \<Rightarrow> if c \<noteq> img then upd_elem c (\<lambda>e. e\<lparr>style_zIndex := Some ''1''\<rparr>) w1
                            else w1)
      in w2\<lparr>currentImage := Some img\<rparr>)"

definition run_callback :: "(string list \<Rightarrow> string list) \<Rightarrow> callback \<Rightarrow> world \<Rightarrow> world" where
  "run_callback sortRandom cb w =
     (case cb of
        RotationTick \<Rightarrow>
          (let w1 = w\<lparr>nextImageTimeout := None\<rparr>
           in if \<not> isPaused w1 then showNextImage sortRandom w1 else w1)
      | RotationTickAlways \<Rightarrow> showNextImage sortRandom (w\<lparr>nextImageTimeout := None\<rparr>)
      | FadeOutRemoval p \<Rightarrow>
          (case container w of
             None \<Rightarrow> w
           | Some kids \<Rightarrow> if p \<in> set kids then dom_remove p w else w))"

subsection \<open>Construction and preloading\<close>

datatype promise = Fulfilled | Rejected

text \<open>
  \<^verbatim>\<open>preloadImages\<close> maps every shuffled path to a promise of its own; \<open>broken\<close> lists the
  paths whose load ends in \<^verbatim>\<open>onerror\<close>. \<^verbatim>\<open>Promise.all\<close> is fulfilled when every promise
  is, and rejected when one is rejected.
\<close>

definition preload_promises :: "string list \<Rightarrow> world \<Rightarrow> promise list" where
  "preload_promises broken w =
     map (\<lambda>p. if p \<in> set broken then Rejected else Fulfilled) (shuffledImages w)"

definition Promise_all :: "promise list \<Rightarrow> promise" where
  "Promise_all ps = (if Rejected \<in> set ps then Rejected else Fulfilled)"

definition preloadImages :: "string list \<Rightarrow> world \<Rightarrow> promise" where
  "preloadImages broken w = Promise_all (preload_promises broken w)"

text \<open>
  \<^verbatim>\<open>init\<close> shuffles and registers \<^verbatim>\<open>.then(() => this.showNextImage())\<close> on the promise of
  \<^verbatim>\<open>preloadImages\<close>; \<open>preload_settled\<close> is what runs once every load has settled: the
  continuation when the promise is fulfilled, nothing when it is rejected (the source
  attaches no rejection handler).
\<close>

definition init :: "(string list \<Rightarrow> string list) \<Rightarrow> world \<Rightarrow> world" where
  "init sortRandom w = w\<lparr>shuffledImages := sortRandom (imagePaths w)\<rparr>"

definition preload_settled :: "(string list \<Rightarrow> string list) \<Rightarrow> string list \<Rightarrow> world \<Rightarrow> world" where
  "preload_settled sortRandom broken w =
     (case preloadImages broken w of
        Fulfilled \<Rightarrow> showNextImage sortRandom w
      | Rejected \<Rightarrow> w)"

text \<open>\<^verbatim>\<open>a || d\<close> on an optional number, then the override by \<^verbatim>\<open>...options\<close>.\<close>

definition or_default :: "real option \<Rightarrow> real \<Rightarrow> real" where
  "or_default a d = (if truthy_num a then the a else d)"

definition spread :: "real option \<Rightarrow> real \<Rightarrow> real" where
  "spread a v = (case a of None \<Rightarrow> v | Some x \<Rightarrow> x)"

definition Slideshow_new ::
  "(string list \<Rightarrow> string list) \<Rightarrow> (nat \<Rightarrow> element) \<Rightarrow> nat \<Rightarrow> nat list option \<Rightarrow>
   string list \<Rightarrow> options_in \<Rightarrow> real \<Rightarrow> real \<Rightarrow> world" where
  "Slideshow_new sortRandom page fresh containerFound paths options innerWidth innerHeight =
     init sortRandom (updateViewportDimensions
       \<lparr>container = containerFound,
        imagePaths = paths,
        displayDuration = spread (opt_displayDuration options) (or_default (opt_displayDuration options) 3000),
        transitionDuration = spread (opt_transitionDuration options) (or_default (opt_transitionDuration options) 250),
        viewportPercentage = spread (opt_viewportPercentage options) (or_default (opt_viewportPercentage options) 20),
        marginX = spread (opt_marginX options) (or_default (opt_marginX options) 5),
        marginY = spread (opt_marginY options) (or_default (opt_marginY options) 5),
        currentIndex = Some 0,
        shuffledImages = [],
        currentImage = None,
        viewportWidth = innerWidth,
        viewportHeight = innerHeight,
        nextImageTimeout = None,
        isPaused = False,
        imageShowTime = None,
        fullDisplayDuration = None,
        cssViewport = (0, 0),
        elems = page,
        nextElem = fresh,
        timers = [],
        nextTimer = 0,
        frames = [],
        loading = [],
        hovered = {},
        console = []\<rparr>)"

subsection \<open>Events of the page\<close>

datatype event =
    PreloadSettled "string list"
  | ImgLoad nat real real real real real
  | ImgError nat
  | Timeout nat
  | AnimationFrame
  | MouseEnter nat
  | MouseLeave nat real
  | VisibilityVisible real
  | Resize real real

text \<open>
  One event of the page, dispatched to the handler the source registered for it. An event
  that has no handler in the current state (a load of an image that is not in flight, a
  timer that is not pending, a pointer event on an element without listeners) changes
  nothing.
\<close>

definition step :: "(string list \<Rightarrow> string list) \<Rightarrow> event \<Rightarrow> world \<Rightarrow> world option" where
  "step sortRandom ev w =
     (case ev of
        PreloadSettled broken \<Rightarrow> Some (preload_settled sortRandom broken w)
      | ImgLoad img now nw nh r1 r2 \<Rightarrow>
          if img \<in> set (loading w)
          then img_onload now nw nh r1 r2 img (w\<lparr>loading := removeAll img (loading w)\<rparr>)
          else Some w
      | ImgError img \<Rightarrow>
          if img \<in> set (loading w)
          then Some (img_onerror img (w\<lparr>loading := removeAll img (loading w)\<rparr>))
          else Some w
      | Timeout h \<Rightarrow>
          (case find (\<lambda>t. fst t = h) (timers w) of
             None \<Rightarrow> Some w
           | Some t \<Rightarrow> Some (run_callback sortRandom (fst (snd t)) (clearTimeout h w)))
      | AnimationFrame \<Rightarrow> Some (fold activate (frames w) (w\<lparr>frames := []\<rparr>))
      | MouseEnter img \<Rightarrow>
          if hover_listeners (elems w img)
          then Some (pause (w\<lparr>hovered := insert img (hovered w)\<rparr>))
          else Some (w\<lparr>hovered := insert img (hovered w)\<rparr>)
      | MouseLeave img now \<Rightarrow>
          if hover_listeners (elems w img)
          then Some (resume now (w\<lparr>hovered := hovered w - {img}\<rparr>))
          else Some (w\<lparr>hovered := hovered w - {img}\<rparr>)
      | VisibilityVisible now \<Rightarrow>
          (let w1 = cleanupStuckImages now w
           in case currentImage w1 of
                None \<Rightarrow> Some w1
              | Some c \<Rightarrow>
                  if isPaused w1 then (if c \<notin> hovered w1 then Some (resume now w1) else Some w1)
                  else Some w1)
      | Resize iw ih \<Rightarrow>
          Some (updateViewportDimensions (w\<lparr>viewportWidth := iw, viewportHeight := ih\<rparr>)))"

fun run :: "(string list \<Rightarrow> string list) \<Rightarrow> event list \<Rightarrow> world \<Rightarrow> world option" where
  "run sortRandom [] w = Some w"
| "run sortRandom (ev # evs) w =
     (case step sortRandom ev w of None \<Rightarrow> None | Some w' \<Rightarrow> run sortRandom evs w')"

text \<open>A run of rotation ticks, each with the shuffle the platform would return at that call.\<close>

fun ticks :: "(string list \<Rightarrow> string list) list \<Rightarrow> world \<Rightarrow> world" where
  "ticks [] w = w"
| "ticks (f # fs) w = ticks fs (showNextImage f w)"

subsection \<open>The viewport scaler\<close>

text \<open>
  \<^verbatim>\<open>viewport-scale.js\<close>: the element \<^verbatim>\<open>.cv-virtual-viewport\<close> (\<open>vv_found\<close> says whether
  \<^verbatim>\<open>querySelector\<close> found it), its \<^verbatim>\<open>style.transform\<close>, whether the script registered its
  listeners, and the number of pending \<^verbatim>\<open>setTimeout(updateScale, 100)\<close>.
\<close>

datatype transform = Scale real

record scaler =
  vv_found :: bool
  vv_transform :: "transform option"
  scale_listeners :: bool
  scale_timeouts :: nat

definition VIRTUAL_WIDTH :: real where
  "VIRTUAL_WIDTH = 1024"

definition VIRTUAL_HEIGHT :: real where
  "VIRTUAL_HEIGHT = 768"

definition updateScale :: "real \<Rightarrow> real \<Rightarrow> scaler \<Rightarrow> scaler" where
  "updateScale innerWidth innerHeight s =
     (let scaleX = innerWidth / VIRTUAL_WIDTH;
          scaleY = innerHeight / VIRTUAL_HEIGHT;
          scale = min (min scaleX scaleY) 1
      in s\<lparr>vv_transform := Some (Scale scale)\<rparr>)"

definition viewport_scale_script :: "real \<Rightarrow> real \<Rightarrow> scaler \<Rightarrow> scaler" where
  "viewport_scale_script innerWidth innerHeight s =
     (if \<not> vv_found s then s
      else (updateScale innerWidth innerHeight s)\<lparr>scale_listeners := True\<rparr>)"

definition scaler_resize :: "real \<Rightarrow> real \<Rightarrow> scaler \<Rightarrow> scaler" where
  "scaler_resize innerWidth innerHeight s =
     (if scale_listeners s then updateScale innerWidth innerHeight s else s)"

definition scaler_orientationchange :: "scaler \<Rightarrow> scaler" where
  "scaler_orientationchange s =
     (if scale_listeners s then s\<lparr>scale_timeouts := Suc (scale_timeouts s)\<rparr> else s)"

definition scaler_timeout :: "real \<Rightarrow> real \<Rightarrow> scaler \<Rightarrow> scaler" where
  "scaler_timeout innerWidth innerHeight s =
     (case scale_timeouts s of
        0 \<Rightarrow> s
      | Suc n \<Rightarrow> updateScale innerWidth innerHeight (s\<lparr>scale_timeouts := n\<rparr>))"

subsection \<open>Concrete pages\<close>

text \<open>
  A page with three images, an empty container and the options of the shipped
  instantiation; \<^verbatim>\<open>sort\<close> with the random comparator is taken to reverse the list.
\<close>

definition demo_paths :: "string list" where
  "demo_paths = [''a.jpg'', ''b.jpg'', ''c.jpg'']"

definition demo_options :: options_in where
  "demo_options = \<lparr>opt_displayDuration = Some 1500, opt_transitionDuration = Some 250,
     opt_viewportPercentage = Some 20, opt_marginX = Some 20, opt_marginY = Some 20\<rparr>"

definition demo_start :: world where
  "demo_start = Slideshow_new rev (\<lambda>i. new_Image) 0 (Some []) demo_paths demo_options 1000 800"

text \<open>
  The preloads succeed, the first image loads at time 1000 and becomes current on the
  next frame: the state while that image is on display, its rotation timer pending.
\<close>

definition demo_events_showing :: "event list" where
  "demo_events_showing = [PreloadSettled [], ImgLoad 0 1000 400 300 (1/2) (1/2), AnimationFrame]"

definition demo_showing :: world where
  "demo_showing = the (run rev demo_events_showing demo_start)"

text \<open>Then the rotation timer fires and the second image starts loading.\<close>

definition demo_events_loading :: "event list" where
  "demo_events_loading = demo_events_showing @ [Timeout 1]"

definition demo_loading :: world where
  "demo_loading = the (run rev demo_events_loading demo_start)"

text \<open>
  Then the pointer enters the image on display, the load of the second image fails, and
  the pointer leaves at time 3000.
\<close>

definition demo_events_hover_error :: "event list" where
  "demo_events_hover_error = demo_events_loading @ [MouseEnter 0, ImgError 1, MouseLeave 0 3000]"

text \<open>
  Or else the second image loads at time 2800: the state while it is on display, the
  cursor at the last position of the permutation.
\<close>

definition demo_events_second :: "event list" where
  "demo_events_second = demo_events_loading @ [ImgLoad 1 2800 400 300 (1/2) (1/2)]"

definition demo_second :: world where
  "demo_second = the (run rev demo_events_second demo_start)"

text \<open>The same page with a horizontal margin of 60 percent.\<close>

definition demo_margin60 :: world where
  "demo_margin60 = demo_start\<lparr>marginX := 60\<rparr>"

text \<open>A container holding three stray display entities and the current one, paused.\<close>

definition demo_stuck :: world where
  "demo_stuck = demo_start\<lparr>
     container := Some [0, 1, 2, 3],
     elems := (\<lambda>i. new_Image\<lparr>classList := [''slideshow-image'']\<rparr>),
     nextElem := 4,
     currentImage := Some 3,
     isPaused := True,
     imageShowTime := Some 1000,
     fullDisplayDuration := Some 1750\<rparr>"

text \<open>The scaler after its script ran on a page that has the virtual viewport.\<close>

definition demo_scaler :: scaler where
  "demo_scaler = \<lparr>vv_found = True, vv_transform = Some (Scale 1), scale_listeners = True,
     scale_timeouts = 0\<rparr>"

text \<open>The three-image page when the container element is missing.\<close>

definition demo_no_container :: world where
  "demo_no_container = Slideshow_new rev (\<lambda>i. new_Image) 0 None demo_paths demo_options 1000 800"

section \<open>Basic facts\<close>

lemmas handler_defs = preload_settled_def preloadImages_def Promise_all_def preload_promises_def
  showNextImage_def imagePath_at_def next_index_def step_def img_onload_def img_onerror_def
  getRandomCenterpoint_def upd_elem_def setTimeout_def clearTimeout_def classList_add_def
  classList_remove_def activate_def run_callback_def pause_def resume_def resume_delay_def
  new_Image_def dom_remove_def truthy_num_def truthy_id_def Let_def

subsection \<open>Pause and resume\<close>

lemma pause_paused: "isPaused w \<Longrightarrow> pause w = w"
  by (simp add: pause_def)

lemma pause_fields:
  "isPaused (pause w)" "currentImage (pause w) = currentImage w"
  "imageShowTime (pause w) = imageShowTime w"
  "fullDisplayDuration (pause w) = fullDisplayDuration w"
  "nextTimer (pause w) = nextTimer w" "transitionDuration (pause w) = transitionDuration w"
  "displayDuration (pause w) = displayDuration w"
  by (simp_all add: pause_def clearTimeout_def Let_def)

lemma isPaused_resume: "\<not> isPaused (resume now w)"
  by (simp add: resume_def setTimeout_def Let_def)

lemma resume_schedules:
  assumes "isPaused w" "currentImage w \<noteq> None"
  shows "timers (resume now w) = timers w @ [(Suc (nextTimer w), RotationTick, resume_delay now w)]"
    and "nextImageTimeout (resume now w) = Some (Suc (nextTimer w))"
  using assms by (simp_all add: resume_def setTimeout_def resume_delay_def Let_def)

lemma resume_no_image:
  assumes "isPaused w" "currentImage w = None"
  shows "resume now w = w\<lparr>isPaused := False\<rparr>"
  using assms by (simp add: resume_def Let_def)

subsection \<open>Rotation ticks\<close>

lemma showNextImage_frame:
  assumes "container w \<noteq> None"
  shows "nextElem (showNextImage f w) = Suc (nextElem w)"
    and "container (showNextImage f w) = container w"
    and "imagePaths (showNextImage f w) = imagePaths w"
    and "src (elems (showNextImage f w) (nextElem w)) = imagePath_at w"
    and "e \<noteq> nextElem w \<Longrightarrow> elems (showNextImage f w) e = elems w e"
  using assms by (auto simp add: showNextImage_def Let_def)

lemma showNextImage_cursor:
  assumes "container w \<noteq> None" "currentIndex w = Some i" "i < length (shuffledImages w)"
  shows "imagePath_at w = Some (shuffledImages w ! i)"
    and "Suc i < length (shuffledImages w) \<Longrightarrow>
           currentIndex (showNextImage f w) = Some (Suc i)
           \<and> shuffledImages (showNextImage f w) = shuffledImages w"
    and "Suc i = length (shuffledImages w) \<Longrightarrow>
           currentIndex (showNextImage f w) = Some 0
           \<and> shuffledImages (showNextImage f w) = f (imagePaths w)"
  using assms by (auto simp add: showNextImage_def imagePath_at_def next_index_def Let_def)

lemma ticks_append: "ticks (fs @ gs) w = ticks gs (ticks fs w)"
  by (induction fs arbitrary: w) simp_all

lemma ticks_frame:
  assumes "container w \<noteq> None"
  shows "container (ticks fs w) = container w
       \<and> imagePaths (ticks fs w) = imagePaths w
       \<and> nextElem (ticks fs w) = nextElem w + length fs
       \<and> (\<forall>e < nextElem w. elems (ticks fs w) e = elems w e)"
  using assms
proof (induction fs arbitrary: w)
  case Nil
  then show ?case by simp
next
  case (Cons f fs)
  have c: "container (showNextImage f w) \<noteq> None"
    using Cons.prems by (simp add: showNextImage_frame)
  show ?case
    using Cons.IH [OF c] Cons.prems
    by (simp add: showNextImage_frame)
qed

lemma ticks_no_wrap:
  assumes "container w \<noteq> None" "currentIndex w = Some i"
    and "i + length fs < length (shuffledImages w)"
  shows "currentIndex (ticks fs w) = Some (i + length fs)
       \<and> shuffledImages (ticks fs w) = shuffledImages w"
  using assms
proof (induction fs arbitrary: w i)
  case Nil
  then show ?case by simp
next
  case (Cons f fs)
  have c: "container (showNextImage f w) \<noteq> None"
    using Cons.prems by (simp add: showNextImage_frame)
  have i: "i < length (shuffledImages w)" "Suc i < length (shuffledImages w)"
    using Cons.prems by simp_all
  have s: "currentIndex (showNextImage f w) = Some (Suc i)"
     "shuffledImages (showNextImage f w) = shuffledImages w"
    using showNextImage_cursor(2) [OF Cons.prems(1,2) i] by simp_all
  show ?case
    using Cons.IH [OF c s(1)] s(2) Cons.prems(3) by simp
qed

lemma ticks_taken:
  assumes "container w \<noteq> None" "j < length fs"
  shows "src (elems (ticks fs w) (nextElem w + j)) = imagePath_at (ticks (take j fs) w)"
proof -
  have fs: "fs = take j fs @ fs ! j # drop (Suc j) fs"
    using assms(2) by (simp add: id_take_nth_drop)
  define w1 where "w1 = ticks (take j fs) w"
  have c1: "container w1 \<noteq> None" and n1: "nextElem w1 = nextElem w + j"
    using ticks_frame [OF assms(1), of "take j fs"] assms by (simp_all add: w1_def)
  define w2 where "w2 = showNextImage (fs ! j) w1"
  have c2: "container w2 \<noteq> None" and n2: "nextElem w2 = Suc (nextElem w + j)"
    and s2: "src (elems w2 (nextElem w + j)) = imagePath_at w1"
    using showNextImage_frame(1,2,4) [OF c1, of "fs ! j"] n1 c1 by (simp_all add: w2_def)
  have "ticks fs w = ticks (drop (Suc j) fs) w2"
    by (subst fs) (simp add: ticks_append w1_def w2_def)
  moreover have "elems (ticks (drop (Suc j) fs) w2) (nextElem w + j) = elems w2 (nextElem w + j)"
    using ticks_frame [OF c2, of "drop (Suc j) fs"] n2 by simp
  ultimately show ?thesis using s2 by (simp add: w1_def)
qed

subsection \<open>The cursor and the permutation under the events of the page\<close>

lemma Slideshow_new_cursor:
  "currentIndex (Slideshow_new f page fresh c paths opts iw ih) = Some 0
   \<and> shuffledImages (Slideshow_new f page fresh c paths opts iw ih) = f paths
   \<and> imagePaths (Slideshow_new f page fresh c paths opts iw ih) = paths
   \<and> container (Slideshow_new f page fresh c paths opts iw ih) = c"
  by (simp add: Slideshow_new_def init_def updateViewportDimensions_def)

lemma showNextImage_reshuffle:
  "shuffledImages (showNextImage f w) \<noteq> shuffledImages w \<Longrightarrow>
   currentIndex (showNextImage f w) = Some 0"
  by (auto simp add: showNextImage_def Let_def split: option.splits if_splits)

lemma pause_cursor:
  "shuffledImages (pause w) = shuffledImages w" "currentIndex (pause w) = currentIndex w"
  by (simp_all add: pause_def clearTimeout_def Let_def)

lemma resume_cursor:
  "shuffledImages (resume now w) = shuffledImages w" "currentIndex (resume now w) = currentIndex w"
  by (simp_all add: resume_def setTimeout_def Let_def)

lemma cleanup_cursor:
  "shuffledImages (cleanupStuckImages now w) = shuffledImages w"
  "currentIndex (cleanupStuckImages now w) = currentIndex w"
  by (simp_all add: cleanupStuckImages_def upd_elem_def resume_cursor Let_def split: option.splits)

lemma img_onerror_cursor:
  "shuffledImages (img_onerror img w) = shuffledImages w"
  "currentIndex (img_onerror img w) = currentIndex w"
  by (simp_all add: img_onerror_def setTimeout_def clearTimeout_def Let_def)

lemma img_onload_cursor:
  assumes "img_onload now nw nh r1 r2 img w = Some w'"
  shows "shuffledImages w' = shuffledImages w" "currentIndex w' = currentIndex w"
  using assms
  by (auto simp add: img_onload_def setTimeout_def clearTimeout_def upd_elem_def Let_def
      split: option.splits if_splits)

lemma activate_cursor:
  "shuffledImages (activate img w) = shuffledImages w" "currentIndex (activate img w) = currentIndex w"
  by (simp_all add: activate_def upd_elem_def Let_def split: option.splits)

lemma fold_activate_cursor:
  "shuffledImages (fold activate is w) = shuffledImages w
   \<and> currentIndex (fold activate is w) = currentIndex w"
  by (induction "is" arbitrary: w) (simp_all add: activate_cursor)

lemma run_callback_reshuffle:
  "shuffledImages (run_callback f cb w) \<noteq> shuffledImages w \<Longrightarrow>
   currentIndex (run_callback f cb w) = Some 0"
  using showNextImage_reshuffle [of f "w\<lparr>nextImageTimeout := None\<rparr>"]
  by (cases cb)
    (auto simp add: run_callback_def dom_remove_def Let_def split: option.splits if_splits)

lemma step_reshuffle:
  assumes "step f ev w = Some w'" "shuffledImages w' \<noteq> shuffledImages w"
  shows "currentIndex w' = Some 0"
proof (cases ev)
  case (PreloadSettled broken)
  then show ?thesis
    using assms showNextImage_reshuffle [of f w]
    by (auto simp add: step_def preload_settled_def split: promise.splits)
next
  case (ImgLoad img now nw nh r1 r2)
  then show ?thesis
    using assms img_onload_cursor(1)
      [of now nw nh r1 r2 img "w\<lparr>loading := removeAll img (loading w)\<rparr>" w']
    by (auto simp add: step_def split: if_splits)
next
  case (ImgError img)
  then show ?thesis
    using assms by (auto simp add: step_def img_onerror_cursor split: if_splits)
next
  case (Timeout h)
  then show ?thesis
    using assms run_callback_reshuffle [of f _ "clearTimeout h w"]
    by (auto simp add: step_def clearTimeout_def split: option.splits)
next
  case AnimationFrame
  then show ?thesis
    using assms fold_activate_cursor [of "frames w" "w\<lparr>frames := []\<rparr>"]
    by (auto simp add: step_def)
next
  case (MouseEnter img)
  then show ?thesis
    using assms by (auto simp add: step_def pause_cursor split: if_splits)
next
  case (MouseLeave img now)
  then show ?thesis
    using assms by (auto simp add: step_def resume_cursor split: if_splits)
next
  case (VisibilityVisible now)
  then show ?thesis
    using assms
    by (auto simp add: step_def Let_def resume_cursor cleanup_cursor split: option.splits if_splits)
next
  case (Resize iw ih)
  then show ?thesis
    using assms by (auto simp add: step_def updateViewportDimensions_def)
qed

subsection \<open>The concrete pages, evaluated\<close>

lemma run_append:
  "run f (xs @ ys) w = (case run f xs w of None \<Rightarrow> None | Some w' \<Rightarrow> run f ys w')"
  by (induction xs arbitrary: w) (simp_all split: option.splits)

lemma demo_start_eq: "demo_start =
  \<lparr>container = Some [], imagePaths = [''a.jpg'', ''b.jpg'', ''c.jpg''],
     displayDuration = 1500, transitionDuration = 250,
     viewportPercentage = 20, marginX = 20, marginY = 20,
     currentIndex = Some 0,
     shuffledImages = [''c.jpg'', ''b.jpg'', ''a.jpg''],
     currentImage = None, viewportWidth = 1000, viewportHeight = 800,
     nextImageTimeout = None, isPaused = False, imageShowTime = None,
     fullDisplayDuration = None, cssViewport = (1000, 800), elems = (\<lambda>i. new_Image),
     nextElem = 0, timers = [], nextTimer = 0, frames = [], loading = [],
     hovered = {}, console = []\<rparr>"
  by (simp add: demo_start_def Slideshow_new_def init_def updateViewportDimensions_def
      spread_def demo_options_def demo_paths_def)

lemma demo_no_container_eq: "demo_no_container = demo_start\<lparr>container := None\<rparr>"
  by (simp add: demo_no_container_def demo_start_def Slideshow_new_def init_def
      updateViewportDimensions_def)

lemma demo_showing_run: "run rev demo_events_showing demo_start = Some demo_showing"
  by (simp add: demo_showing_def demo_events_showing_def demo_start_eq handler_defs)

lemma demo_showing_eq: "demo_showing =
  \<lparr>container = Some [0], imagePaths = [''a.jpg'', ''b.jpg'', ''c.jpg''],
     displayDuration = 1500, transitionDuration = 250,
     viewportPercentage = 20, marginX = 20, marginY = 20,
     currentIndex = Some 1,
     shuffledImages = [''c.jpg'', ''b.jpg'', ''a.jpg''],
     currentImage = Some 0, viewportWidth = 1000, viewportHeight = 800,
     nextImageTimeout = Some 1, isPaused = False, imageShowTime = Some 1000,
     fullDisplayDuration = Some 1750, cssViewport = (1000, 800),
     elems = (\<lambda>i. new_Image)
       (0 := \<lparr>src = Some ''c.jpg'', classList = [''slideshow-image'', ''active''],
               alt = ''Portfolio image'', style_width = Some 400, style_height = Some 300,
               style_left = Some 500, style_top = Some 400, style_zIndex = Some ''10'',
               hover_listeners = True\<rparr>),
     nextElem = 1, timers = [(1, RotationTick, 1750)], nextTimer = 1, frames = [],
     loading = [], hovered = {}, console = []\<rparr>"
  by (simp add: demo_showing_def demo_events_showing_def demo_start_eq handler_defs)

lemma demo_loading_run: "run rev demo_events_loading demo_start = Some demo_loading"
  by (simp add: demo_loading_def demo_events_loading_def run_append demo_showing_run)
     (simp add: demo_showing_eq handler_defs)

lemma demo_loading_eq: "demo_loading =
  \<lparr>container = Some [0], imagePaths = [''a.jpg'', ''b.jpg'', ''c.jpg''],
     displayDuration = 1500, transitionDuration = 250,
     viewportPercentage = 20, marginX = 20, marginY = 20,
     currentIndex = Some 2,
     shuffledImages = [''c.jpg'', ''b.jpg'', ''a.jpg''],
     currentImage = Some 0, viewportWidth = 1000, viewportHeight = 800,
     nextImageTimeout = None, isPaused = False, imageShowTime = Some 1000,
     fullDisplayDuration = Some 1750, cssViewport = (1000, 800),
     elems = (\<lambda>i. new_Image)
       (0 := \<lparr>src = Some ''c.jpg'', classList = [''slideshow-image'', ''active''],
               alt = ''Portfolio image'', style_width = Some 400, style_height = Some 300,
               style_left = Some 500, style_top = Some 400, style_zIndex = Some ''10'',
               hover_listeners = True\<rparr>,
        1 := \<lparr>src = Some ''b.jpg'', classList = [''slideshow-image''],
               alt = ''Portfolio image'', style_width = None, style_height = None,
               style_left = None, style_top = None, style_zIndex = None,
               hover_listeners = False\<rparr>),
     nextElem = 2, timers = [], nextTimer = 1, frames = [], loading = [1],
     hovered = {}, console = []\<rparr>"
  by (simp add: demo_loading_def demo_events_loading_def run_append demo_showing_run)
     (simp add: demo_showing_eq handler_defs)

lemma demo_second_eq: "demo_second =
  \<lparr>container = Some [0, 1], imagePaths = [''a.jpg'', ''b.jpg'', ''c.jpg''],
     displayDuration = 1500, transitionDuration = 250,
     viewportPercentage = 20, marginX = 20, marginY = 20,
     currentIndex = Some 2,
     shuffledImages = [''c.jpg'', ''b.jpg'', ''a.jpg''],
     currentImage = Some 0, viewportWidth = 1000, viewportHeight = 800,
     nextImageTimeout = Some 3, isPaused = False, imageShowTime = Some 2800,
     fullDisplayDuration = Some 1750, cssViewport = (1000, 800),
     elems = (\<lambda>i. new_Image)
       (0 := \<lparr>src = Some ''c.jpg'', classList = [''slideshow-image''],
               alt = ''Portfolio image'', style_width = Some 400, style_height = Some 300,
               style_left = Some 500, style_top = Some 400, style_zIndex = Some ''10'',
               hover_listeners = True\<rparr>,
        1 := \<lparr>src = Some ''b.jpg'', classList = [''slideshow-image''],
               alt = ''Portfolio image'', style_width = Some 400, style_height = Some 300,
               style_left = Some 500, style_top = Some 400, style_zIndex = None,
               hover_listeners = True\<rparr>),
     nextElem = 2, timers = [(2, FadeOutRemoval 0, 250), (3, RotationTick, 1750)],
     nextTimer = 3, frames = [1], loading = [], hovered = {}, console = []\<rparr>"
  by (simp add: demo_second_def demo_events_second_def run_append demo_loading_run)
     (simp add: demo_loading_eq handler_defs)

lemma filter_eq_single: "distinct xs \<Longrightarrow> c \<in> set xs \<Longrightarrow> filter (\<lambda>i. i = c) xs = [c]"
  by (induction xs) (auto simp add: filter_empty_conv)

section \<open>Construction and preloading\<close>

text \<open>
  Claim C1, as amended. Construction shuffles the catalog and \<^verbatim>\<open>preloadImages\<close> starts one
  load per shuffled path, each promise settling by its own path alone, so a failed load
  does not keep the others from being attempted. The rotation, that is the first call of
  \<^verbatim>\<open>showNextImage\<close>, begins once the loads have settled exactly when none of them failed:
  when one fails, \<^verbatim>\<open>Promise.all\<close> is rejected and the state stays as it was.
\<close>

theorem preload_gate:
  "shuffledImages (Slideshow_new f page fresh c paths opts iw ih) = f paths
   \<and> preload_promises broken w =
       map (\<lambda>p. if p \<in> set broken then Rejected else Fulfilled) (shuffledImages w)
   \<and> preload_settled g broken w =
       (if set (shuffledImages w) \<inter> set broken = {} then showNextImage g w else w)"
  by (auto simp add: Slideshow_new_def init_def updateViewportDimensions_def
      preload_settled_def preloadImages_def Promise_all_def preload_promises_def
      split: promise.splits)

theorem preload_gate_witness:
  "preload_settled rev [] demo_start = showNextImage rev demo_start
   \<and> preload_settled rev [''b.jpg''] demo_start = demo_start
   \<and> preload_promises [''b.jpg''] demo_start = [Fulfilled, Rejected, Fulfilled]"
  using preload_gate [of rev "\<lambda>i. new_Image" 0 "Some []" demo_paths demo_options 1000 800
      "[]" demo_start rev]
    preload_gate [of rev "\<lambda>i. new_Image" 0 "Some []" demo_paths demo_options 1000 800
      "[''b.jpg'']" demo_start rev]
  by (simp add: demo_start_eq)

text \<open>
  Claim C1 as stated fails: on the three-image page, when the load of \<^verbatim>\<open>b.jpg\<close> fails,
  the promise of \<^verbatim>\<open>preloadImages\<close> is rejected and the state after the loads settled is
  the state before, whereas a call of \<^verbatim>\<open>showNextImage\<close> would have created an image.
\<close>

theorem preload_failure_blocks_rotation:
  "preloadImages [''b.jpg''] demo_start = Rejected
   \<and> preload_settled rev [''b.jpg''] demo_start = demo_start
   \<and> nextElem (showNextImage rev demo_start) \<noteq> nextElem demo_start"
  by (simp add: demo_start_eq handler_defs)

section \<open>The rotation timer\<close>

text \<open>
  Claim C2 fails on the code. On the three-image page: the first image is on display, its
  timer fires and the second image starts loading; the pointer enters the image on
  display (\<^verbatim>\<open>pause\<close>), the load of the second image fails (\<^verbatim>\<open>onerror\<close> sets a timer
  although the controller is paused), and the pointer leaves (\<^verbatim>\<open>resume\<close> sets a timer
  without clearing the pending one). Two rotation timers are then pending.
\<close>

theorem hover_error_leaves_two_rotation_timers:
  "map_option rotation_timers (run rev demo_events_hover_error demo_start)
     = Some [(2, RotationTickAlways, 1750), (3, RotationTick, 0)]
   \<and> map_option nextImageTimeout (run rev demo_events_hover_error demo_start) = Some (Some 3)"
  by (simp add: demo_events_hover_error_def run_append demo_loading_run)
     (simp add: demo_loading_eq handler_defs rotation_timers_def is_rotation_def)

text \<open>
  Claim C3, as amended. Every paused state is \<open>pause w\<close> for some \<open>w\<close> (itself). When a
  current image exists, \<^verbatim>\<open>resume\<close> sets one timer: after
  \<open>max 0 (fullDisplayDuration - (now - imageShowTime))\<close> when both fields are recorded
  (truthy), after \<open>transitionDuration + displayDuration\<close> otherwise; without a current image
  it sets none. So \<^verbatim>\<open>pause\<close> followed by \<^verbatim>\<open>resume\<close>, with the clock not before
  \<open>imageShowTime\<close> and a positive full duration, sets a delay between 0 and the full
  duration, which is positive exactly when less than the full duration has elapsed since
  the image was shown.
\<close>

theorem resume_delay_schedule:
  "(isPaused w \<longrightarrow> pause w = w)
   \<and> (currentImage w \<noteq> None \<longrightarrow>
        nextImageTimeout (resume now (pause w)) = Some (Suc (nextTimer w))
      \<and> (truthy_num (imageShowTime w) \<and> truthy_num (fullDisplayDuration w) \<longrightarrow>
           timers (resume now (pause w)) = timers (pause w) @
             [(Suc (nextTimer w), RotationTick,
               max 0 (the (fullDisplayDuration w) - (now - the (imageShowTime w))))])
      \<and> (\<not> (truthy_num (imageShowTime w) \<and> truthy_num (fullDisplayDuration w)) \<longrightarrow>
           timers (resume now (pause w)) = timers (pause w) @
             [(Suc (nextTimer w), RotationTick, transitionDuration w + displayDuration w)])
      \<and> (imageShowTime w = Some t \<and> t \<noteq> 0 \<and> fullDisplayDuration w = Some d \<and> 0 < d
            \<and> t \<le> now \<longrightarrow>
           (\<exists>delay. last (timers (resume now (pause w))) = (Suc (nextTimer w), RotationTick, delay)
              \<and> 0 \<le> delay \<and> delay \<le> d \<and> (0 < delay \<longleftrightarrow> now - t < d))))
   \<and> (currentImage w = None \<longrightarrow> timers (resume now (pause w)) = timers (pause w))"
proof -
  have a: "isPaused w \<longrightarrow> pause w = w" by (simp add: pause_paused)
  have e: "currentImage w = None \<longrightarrow> timers (resume now (pause w)) = timers (pause w)"
    using resume_no_image [of "pause w" now] by (simp add: pause_fields)
  have b: "timers (resume now (pause w)) = timers (pause w) @
             [(Suc (nextTimer w), RotationTick, resume_delay now w)]"
      "nextImageTimeout (resume now (pause w)) = Some (Suc (nextTimer w))"
    if "currentImage w \<noteq> None"
    using resume_schedules [of "pause w" now] that
    by (simp_all add: pause_fields resume_delay_def)
  have c: "resume_delay now w = max 0 (the (fullDisplayDuration w) - (now - the (imageShowTime w)))"
    if "truthy_num (imageShowTime w) \<and> truthy_num (fullDisplayDuration w)"
    using that by (simp add: resume_delay_def Let_def)
  have d: "resume_delay now w = transitionDuration w + displayDuration w"
    if "\<not> (truthy_num (imageShowTime w) \<and> truthy_num (fullDisplayDuration w))"
    using that by (auto simp add: resume_delay_def Let_def)
  have f: "\<exists>delay. last (timers (resume now (pause w))) = (Suc (nextTimer w), RotationTick, delay)
              \<and> 0 \<le> delay \<and> delay \<le> d \<and> (0 < delay \<longleftrightarrow> now - t < d)"
    if "currentImage w \<noteq> None"
      "imageShowTime w = Some t \<and> t \<noteq> 0 \<and> fullDisplayDuration w = Some d \<and> 0 < d \<and> t \<le> now"
  proof -
    have "resume_delay now w = max 0 (d - (now - t))"
      using that(2) by (simp add: resume_delay_def truthy_num_def Let_def)
    then have "last (timers (resume now (pause w)))
        = (Suc (nextTimer w), RotationTick, max 0 (d - (now - t)))"
      using b(1) [OF that(1)] by simp
    moreover have "0 \<le> max 0 (d - (now - t))" by simp
    moreover have "max 0 (d - (now - t)) \<le> d" using that(2) by auto
    moreover have "0 < max 0 (d - (now - t)) \<longleftrightarrow> now - t < d" by auto
    ultimately show ?thesis by blast
  qed
  from a b c d e f show ?thesis by metis
qed

theorem resume_delay_schedule_witness:
  "currentImage demo_showing \<noteq> None \<and> imageShowTime demo_showing = Some 1000
   \<and> fullDisplayDuration demo_showing = Some 1750 \<and> (1000::real) \<le> 1500
   \<and> timers (resume 1500 (pause demo_showing)) = [(2, RotationTick, 1250)]
   \<and> nextImageTimeout (resume 1500 (pause demo_showing)) = Some 2
   \<and> timers (resume 1500 (pause (demo_showing\<lparr>imageShowTime := None\<rparr>)))
       = [(2, RotationTick, 1750)]
   \<and> currentImage demo_start = None \<and> timers (resume 1500 (pause demo_start)) = []
   \<and> isPaused (pause demo_showing) \<and> pause (pause demo_showing) = pause demo_showing"
  using resume_delay_schedule [of demo_showing 1500 1000 1750]
    resume_delay_schedule [of "demo_showing\<lparr>imageShowTime := None\<rparr>" 1500 0 0]
    resume_delay_schedule [of demo_start 1500 0 0]
    resume_delay_schedule [of "pause demo_showing" 1500 0 0]
  by (simp add: demo_showing_eq demo_start_eq handler_defs)

text \<open>
  Claim C3 as stated fails in its last part: once the rotation timer has fired and the
  next image is still loading, more than the full duration has elapsed since the image on
  display was shown (here 1800 of 1750 milliseconds), and \<^verbatim>\<open>pause\<close> followed by
  \<^verbatim>\<open>resume\<close> sets the timer with delay 0, which is not greater than 0.
\<close>

theorem pause_resume_zero_delay:
  "currentImage demo_loading = Some 0 \<and> imageShowTime demo_loading = Some 1000
   \<and> fullDisplayDuration demo_loading = Some 1750
   \<and> timers (resume 2800 (pause demo_loading)) = [(2, RotationTick, 0)]"
  by (simp add: demo_loading_eq handler_defs)

section \<open>One pass of the rotation\<close>

text \<open>
  Claim C4. Let the catalog be non-empty, the cursor at 0 and \<open>shuffledImages\<close> a
  permutation of the catalog, and run as many ticks as the catalog has entries. Then tick
  number \<open>k\<close> takes the image at position \<open>k\<close> of that permutation and makes it the source
  of the image it creates; before each of these ticks the permutation is still the same
  and the cursor is \<open>k\<close>; the images created in the pass are the catalog's entries, each
  as often as the catalog has it; and the last tick, which wraps the cursor to 0, replaces
  the permutation by the one the platform's sort returns at that call. Whatever the event
  of the page and the state, a step that changes the permutation leaves the cursor at 0.
\<close>

theorem full_pass_visits_permutation:
  assumes "container w \<noteq> None" "currentIndex w = Some 0"
    and "mset (shuffledImages w) = mset (imagePaths w)" "imagePaths w \<noteq> []"
    and "length fs = length (imagePaths w)"
  shows "(\<forall>k < length (imagePaths w).
            imagePath_at (ticks (take k fs) w) = Some (shuffledImages w ! k)
          \<and> src (elems (ticks fs w) (nextElem w + k)) = Some (shuffledImages w ! k)
          \<and> currentIndex (ticks (take k fs) w) = Some k
          \<and> shuffledImages (ticks (take k fs) w) = shuffledImages w)
       \<and> mset (map (\<lambda>k. the (src (elems (ticks fs w) (nextElem w + k))))
                 [0..<length (imagePaths w)])
           = mset (imagePaths w)
       \<and> nextElem (ticks fs w) = nextElem w + length (imagePaths w)
       \<and> currentIndex (ticks fs w) = Some 0
       \<and> shuffledImages (ticks fs w) = last fs (imagePaths w)
       \<and> (step g ev v = Some v' \<and> shuffledImages v' \<noteq> shuffledImages v \<longrightarrow>
            currentIndex v' = Some 0)"
proof -
  let ?P = "shuffledImages w"
  let ?n = "length (imagePaths w)"
  have len: "length ?P = ?n"
    using assms(3) by (metis size_mset)
  have n0: "0 < ?n" using assms(4) by simp
  have pre: "currentIndex (ticks (take k fs) w) = Some k
       \<and> shuffledImages (ticks (take k fs) w) = ?P
       \<and> container (ticks (take k fs) w) \<noteq> None
       \<and> imagePaths (ticks (take k fs) w) = imagePaths w" if "k < ?n" for k
    using ticks_no_wrap [OF assms(1,2), of "take k fs"] ticks_frame [OF assms(1), of "take k fs"]
      that assms(5) len assms(1) by simp
  have at: "imagePath_at (ticks (take k fs) w) = Some (?P ! k)" if "k < ?n" for k
    using pre [OF that] that len by (simp add: imagePath_at_def)
  have taken: "src (elems (ticks fs w) (nextElem w + k)) = Some (?P ! k)" if "k < ?n" for k
    using ticks_taken [OF assms(1), of k fs] at [OF that] that assms(5) by simp
  have "map (\<lambda>k. the (src (elems (ticks fs w) (nextElem w + k)))) [0..<?n]
      = map (\<lambda>k. ?P ! k) [0..<?n]"
    using taken by simp
  also have "\<dots> = ?P" using len by (metis map_nth)
  finally have all:
    "mset (map (\<lambda>k. the (src (elems (ticks fs w) (nextElem w + k)))) [0..<?n])
      = mset (imagePaths w)"
    using assms(3) by simp
  have fs: "fs = take (?n - 1) fs @ [last fs]"
    using assms(5) n0
    by (metis append_butlast_last_id butlast_conv_take length_greater_0_conv)
  define w1 where "w1 = ticks (take (?n - 1) fs) w"
  have w1: "currentIndex w1 = Some (?n - 1)" "shuffledImages w1 = ?P" "container w1 \<noteq> None"
     "imagePaths w1 = imagePaths w"
    using pre [of "?n - 1"] n0 by (simp_all add: w1_def)
  have "ticks fs w = showNextImage (last fs) w1"
    by (subst fs) (simp add: ticks_append w1_def)
  moreover have "currentIndex (showNextImage (last fs) w1) = Some 0
           \<and> shuffledImages (showNextImage (last fs) w1) = last fs (imagePaths w1)"
    using showNextImage_cursor(3) [OF w1(3) w1(1), of "last fs"] w1(2) len n0 by simp
  ultimately have wrap: "currentIndex (ticks fs w) = Some 0"
      "shuffledImages (ticks fs w) = last fs (imagePaths w)"
    using w1(4) by simp_all
  have ne: "nextElem (ticks fs w) = nextElem w + ?n"
    using ticks_frame [OF assms(1), of fs] assms(5) by simp
  have only: "step g ev v = Some v' \<and> shuffledImages v' \<noteq> shuffledImages v \<longrightarrow>
            currentIndex v' = Some 0"
    using step_reshuffle by blast
  from pre at taken all wrap ne only show ?thesis by blast
qed

theorem full_pass_visits_permutation_witness:
  "container demo_start \<noteq> None \<and> currentIndex demo_start = Some 0
   \<and> mset (shuffledImages demo_start) = mset (imagePaths demo_start)
   \<and> imagePaths demo_start \<noteq> [] \<and> length [rev, rev, id] = length (imagePaths demo_start)
   \<and> src (elems (ticks [rev, rev, id] demo_start) 0) = Some ''c.jpg''
   \<and> src (elems (ticks [rev, rev, id] demo_start) 1) = Some ''b.jpg''
   \<and> src (elems (ticks [rev, rev, id] demo_start) 2) = Some ''a.jpg''
   \<and> shuffledImages (ticks [rev, rev] demo_start) = [''c.jpg'', ''b.jpg'', ''a.jpg'']
   \<and> currentIndex (ticks [rev, rev, id] demo_start) = Some 0
   \<and> shuffledImages (ticks [rev, rev, id] demo_start) = [''a.jpg'', ''b.jpg'', ''c.jpg'']
   \<and> step id (Timeout 3) demo_second = Some (the (step id (Timeout 3) demo_second))
   \<and> shuffledImages demo_second = [''c.jpg'', ''b.jpg'', ''a.jpg'']
   \<and> shuffledImages (the (step id (Timeout 3) demo_second)) = [''a.jpg'', ''b.jpg'', ''c.jpg'']
   \<and> currentIndex (the (step id (Timeout 3) demo_second)) = Some 0"
  using full_pass_visits_permutation [of demo_start "[rev, rev, id]" id "Timeout 3" demo_second
      "the (step id (Timeout 3) demo_second)"]
  by (simp add: demo_start_eq demo_second_eq handler_defs)

section \<open>Placement\<close>

text \<open>
  Claim C5, as amended. For draws in \<open>[0, 1)\<close>, a viewport of non-negative width and
  height and margins of at most 50 percent, the centerpoint lies between the margin and
  the viewport's extent less the margin, in both directions, whatever the image's width
  and height.
\<close>

theorem centerpoint_within_margins:
  assumes "0 \<le> r1" "r1 < 1" "0 \<le> r2" "r2 < 1"
    and "0 \<le> viewportWidth w" "0 \<le> viewportHeight w"
    and "marginX w \<le> 50" "marginY w \<le> 50"
  shows "marginX w / 100 * viewportWidth w \<le> fst (getRandomCenterpoint w iw ih r1 r2)
       \<and> fst (getRandomCenterpoint w iw ih r1 r2) \<le> (1 - marginX w / 100) * viewportWidth w
       \<and> marginY w / 100 * viewportHeight w \<le> snd (getRandomCenterpoint w iw ih r1 r2)
       \<and> snd (getRandomCenterpoint w iw ih r1 r2) \<le> (1 - marginY w / 100) * viewportHeight w"
proof -
  have key: "m / 100 * W \<le> r * (W - W * m / 100 - W * m / 100) + W * m / 100
      \<and> r * (W - W * m / 100 - W * m / 100) + W * m / 100 \<le> (1 - m / 100) * W"
    if "0 \<le> r" "r < 1" "0 \<le> W" "m \<le> 50" for r W m :: real
  proof -
    define D where "D = W - W * m / 100 - W * m / 100"
    have "D = W * (1 - m / 50)" by (simp add: D_def algebra_simps)
    moreover have "0 \<le> 1 - m / 50" using that by simp
    ultimately have D0: "0 \<le> D" using that by simp
    have lo: "0 \<le> r * D" using that D0 by simp
    have hi: "r * D \<le> D" using that D0 by (simp add: mult_left_le_one_le)
    have "(1 - m / 100) * W = D + W * m / 100" by (simp add: D_def algebra_simps)
    with lo hi show ?thesis unfolding D_def [symmetric] by (simp add: algebra_simps)
  qed
  show ?thesis
    using key [OF assms(1,2,5,7)] key [OF assms(3,4,6,8)]
    by (simp add: getRandomCenterpoint_def Let_def)
qed

theorem centerpoint_within_margins_witness:
  "(0::real) \<le> 1/4 \<and> (1/4::real) < 1 \<and> (0::real) \<le> 3/4 \<and> (3/4::real) < 1
   \<and> 0 \<le> viewportWidth demo_start \<and> 0 \<le> viewportHeight demo_start
   \<and> marginX demo_start \<le> 50 \<and> marginY demo_start \<le> 50
   \<and> getRandomCenterpoint demo_start 400 300 (1/4) (3/4) = (350, 520)
   \<and> (200::real) \<le> 350 \<and> (350::real) \<le> 800 \<and> (160::real) \<le> 520 \<and> (520::real) \<le> 640"
  using centerpoint_within_margins [of "1/4" "3/4" demo_start 400 300]
  by (simp add: demo_start_eq getRandomCenterpoint_def Let_def)

text \<open>
  Claim C5 as stated fails for a margin above 50 percent: with a horizontal margin of 60
  percent on a viewport 1000 wide the draw 0 gives x = 600, beyond the claimed upper end
  400.
\<close>

theorem centerpoint_margin60_outside:
  "\<not> (fst (getRandomCenterpoint demo_margin60 400 300 0 0)
       \<le> (1 - marginX demo_margin60 / 100) * viewportWidth demo_margin60)"
  by (simp add: getRandomCenterpoint_def demo_margin60_def demo_start_eq Let_def)

section \<open>Recovery\<close>

text \<open>
  Claim C6. With a container, \<^verbatim>\<open>cleanupStuckImages\<close> keeps of the container's children
  exactly those that are not display entities or are the tracked current image; the
  current image carries the \<^verbatim>\<open>active\<close> class afterwards and no other element is touched;
  when the controller is paused and the current image is not hovered the result is that
  of \<^verbatim>\<open>resume\<close> on the cleaned state, so the controller is no longer paused, and when the
  current image is hovered it stays paused with its timers as they were. When the
  children are distinct display entities and the current image is one of them (three
  strays and the current one, say), the current image alone remains.
\<close>

theorem cleanup_removes_strays:
  assumes "container w = Some kids"
  shows "container (cleanupStuckImages now w) =
           Some (filter (\<lambda>i. \<not> (''slideshow-image'' \<in> set (classList (elems w i))
                                \<and> Some i \<noteq> currentImage w)) kids)
       \<and> (currentImage w = Some c \<longrightarrow>
            ''active'' \<in> set (classList (elems (cleanupStuckImages now w) c))
          \<and> (\<forall>i. i \<noteq> c \<longrightarrow> elems (cleanupStuckImages now w) i = elems w i))
       \<and> (currentImage w = Some c \<and> isPaused w \<and> c \<notin> hovered w \<longrightarrow>
            cleanupStuckImages now w =
              resume now (upd_elem c (\<lambda>e. e\<lparr>classList := classList_add ''active'' (classList e)\<rparr>)
                (w\<lparr>container := Some (filter (\<lambda>i. \<not> is_stray w i) kids)\<rparr>))
          \<and> \<not> isPaused (cleanupStuckImages now w)
          \<and> nextImageTimeout (cleanupStuckImages now w) = Some (Suc (nextTimer w)))
       \<and> (currentImage w = Some c \<and> isPaused w \<and> c \<in> hovered w \<longrightarrow>
            isPaused (cleanupStuckImages now w)
          \<and> timers (cleanupStuckImages now w) = timers w)
       \<and> (currentImage w = Some c \<and> c \<in> set kids \<and> distinct kids
            \<and> (\<forall>i \<in> set kids. ''slideshow-image'' \<in> set (classList (elems w i))) \<longrightarrow>
            container (cleanupStuckImages now w) = Some [c])"
proof -
  let ?w1 = "w\<lparr>container := Some (filter (\<lambda>i. \<not> is_stray w i) kids)\<rparr>"
  let ?w2 = "upd_elem c (\<lambda>e. e\<lparr>classList := classList_add ''active'' (classList e)\<rparr>) ?w1"
  have none: "cleanupStuckImages now w = ?w1" if "currentImage w = None"
    using assms that by (simp add: cleanupStuckImages_def Let_def)
  have w2_id: "?w2 = ?w1" if "''active'' \<in> set (classList (elems w c))"
    using that by (simp add: upd_elem_def classList_add_def)
  have some: "cleanupStuckImages now w =
      (if isPaused w then (if c \<notin> hovered w then resume now ?w2 else ?w2) else ?w2)"
    if "currentImage w = Some c"
  proof (cases "''active'' \<in> set (classList (elems w c))")
    case True
    then show ?thesis
      using assms that w2_id [OF True]
      by (simp add: cleanupStuckImages_def Let_def)
  next
    case False
    then show ?thesis
      using assms that
      by (simp add: cleanupStuckImages_def Let_def upd_elem_def)
  qed
  have w2: "container ?w2 = Some (filter (\<lambda>i. \<not> is_stray w i) kids)"
      "''active'' \<in> set (classList (elems ?w2 c))"
      "\<forall>i. i \<noteq> c \<longrightarrow> elems ?w2 i = elems w i"
      "timers ?w2 = timers w" "nextTimer ?w2 = nextTimer w" "isPaused ?w2 = isPaused w"
      "currentImage ?w2 = currentImage w"
    by (simp_all add: upd_elem_def classList_add_def)
  have res: "container (resume now v) = container v" "elems (resume now v) = elems v" for v
    by (simp_all add: resume_def setTimeout_def Let_def)
  have a: "container (cleanupStuckImages now w) = Some (filter (\<lambda>i. \<not> is_stray w i) kids)"
  proof (cases "currentImage w")
    case None
    then show ?thesis using none by simp
  next
    case (Some c')
    then show ?thesis
      using assms by (simp add: cleanupStuckImages_def Let_def upd_elem_def res)
  qed
  have b: "''active'' \<in> set (classList (elems (cleanupStuckImages now w) c))
          \<and> (\<forall>i. i \<noteq> c \<longrightarrow> elems (cleanupStuckImages now w) i = elems w i)"
    if "currentImage w = Some c"
    using some [OF that] w2(2,3) by (simp add: res)
  have c: "cleanupStuckImages now w = resume now ?w2
          \<and> \<not> isPaused (cleanupStuckImages now w)
          \<and> nextImageTimeout (cleanupStuckImages now w) = Some (Suc (nextTimer w))"
    if "currentImage w = Some c \<and> isPaused w \<and> c \<notin> hovered w"
  proof -
    have eq: "cleanupStuckImages now w = resume now ?w2"
      using some that by simp
    have "isPaused ?w2" "currentImage ?w2 \<noteq> None"
      using that w2(6,7) by simp_all
    then have "nextImageTimeout (resume now ?w2) = Some (Suc (nextTimer ?w2))"
      by (rule resume_schedules(2))
    then show ?thesis
      using eq isPaused_resume [of now ?w2] w2(5) by simp
  qed
  have d: "isPaused (cleanupStuckImages now w) \<and> timers (cleanupStuckImages now w) = timers w"
    if "currentImage w = Some c \<and> isPaused w \<and> c \<in> hovered w"
    using some that w2(4,6) by simp
  have e: "container (cleanupStuckImages now w) = Some [c]"
    if "currentImage w = Some c \<and> c \<in> set kids \<and> distinct kids
            \<and> (\<forall>i \<in> set kids. ''slideshow-image'' \<in> set (classList (elems w i)))"
  proof -
    have "filter (\<lambda>i. \<not> is_stray w i) kids = filter (\<lambda>i. i = c) kids"
      using that by (intro filter_cong) (auto simp add: is_stray_def)
    then show ?thesis
      using a that filter_eq_single [of kids c] by simp
  qed
  have a': "container (cleanupStuckImages now w) =
           Some (filter (\<lambda>i. \<not> (''slideshow-image'' \<in> set (classList (elems w i))
                                \<and> Some i \<noteq> currentImage w)) kids)"
    using a by (simp add: is_stray_def)
  from a' b c d e show ?thesis by blast
qed

theorem cleanup_removes_strays_witness:
  "container demo_stuck = Some [0, 1, 2, 3] \<and> currentImage demo_stuck = Some 3
   \<and> isPaused demo_stuck \<and> 3 \<notin> hovered demo_stuck \<and> distinct [0, 1, 2, 3::nat]
   \<and> container (cleanupStuckImages 1500 demo_stuck) = Some [3]
   \<and> classList (elems (cleanupStuckImages 1500 demo_stuck) 3) = [''slideshow-image'', ''active'']
   \<and> \<not> isPaused (cleanupStuckImages 1500 demo_stuck)
   \<and> timers (cleanupStuckImages 1500 demo_stuck) = [(1, RotationTick, 1250)]
   \<and> isPaused (cleanupStuckImages 1500 (demo_stuck\<lparr>hovered := {3}\<rparr>))"
  using cleanup_removes_strays [of demo_stuck "[0, 1, 2, 3]" 1500 3]
    cleanup_removes_strays [of "demo_stuck\<lparr>hovered := {3}\<rparr>" "[0, 1, 2, 3]" 1500 3]
  by (simp add: demo_stuck_def demo_start_eq cleanupStuckImages_def is_stray_def handler_defs)

section \<open>Pause and resume\<close>

text \<open>
  Claim C7. A second \<^verbatim>\<open>pause\<close> leaves the whole state as the first left it, and so does
  a second \<^verbatim>\<open>resume\<close>, at whatever time; \<^verbatim>\<open>pause\<close> never changes \<open>imageShowTime\<close>; and a
  \<^verbatim>\<open>pause\<close> of a controller that is not yet paused removes the timer that
  \<open>nextImageTimeout\<close> refers to, and no other, from the pending timers and sets the
  handle to null.
\<close>

theorem pause_resume_idempotent:
  "pause (pause w) = pause w
   \<and> resume now' (resume now w) = resume now w
   \<and> imageShowTime (pause w) = imageShowTime w
   \<and> (\<not> isPaused w \<and> nextImageTimeout w = Some h \<and> h \<noteq> 0 \<longrightarrow>
        timers (pause w) = filter (\<lambda>t. fst t \<noteq> h) (timers w)
        \<and> h \<notin> fst ` set (timers (pause w))
        \<and> nextImageTimeout (pause w) = None)"
proof -
  have a: "pause (pause w) = pause w"
    by (rule pause_paused) (rule pause_fields)
  have b: "resume now' (resume now w) = resume now w"
    using isPaused_resume [of now w] by (simp add: resume_def [of now'])
  have c: "imageShowTime (pause w) = imageShowTime w"
    by (rule pause_fields)
  have d: "\<not> isPaused w \<and> nextImageTimeout w = Some h \<and> h \<noteq> 0 \<longrightarrow>
        timers (pause w) = filter (\<lambda>t. fst t \<noteq> h) (timers w)
        \<and> h \<notin> fst ` set (timers (pause w))
        \<and> nextImageTimeout (pause w) = None"
    by (auto simp add: pause_def clearTimeout_def truthy_id_def Let_def)
  from a b c d show ?thesis by blast
qed

theorem pause_resume_idempotent_witness:
  "\<not> isPaused demo_showing \<and> nextImageTimeout demo_showing = Some 1
   \<and> timers demo_showing = [(1, RotationTick, 1750)]
   \<and> timers (pause demo_showing) = [] \<and> nextImageTimeout (pause demo_showing) = None
   \<and> imageShowTime (pause demo_showing) = Some 1000
   \<and> pause (pause demo_showing) = pause demo_showing
   \<and> resume 1600 (resume 1500 (pause demo_showing)) = resume 1500 (pause demo_showing)"
  using pause_resume_idempotent [of demo_showing 1600 1500 1]
    pause_resume_idempotent [of "pause demo_showing" 1600 1500 1]
  by (simp add: demo_showing_eq pause_def clearTimeout_def truthy_id_def Let_def)

section \<open>Load failure during a tick\<close>

text \<open>
  Claim C8. The \<^verbatim>\<open>onerror\<close> handler of a tick's image always returns a state (it has no
  failing branch): it appends one warning to the console, leaves the container, the
  elements and the frame queue as they were, clears the timer that \<open>nextImageTimeout\<close>
  refers to and sets one timer after \<open>transitionDuration + displayDuration\<close>. That is the
  delay of the timer the \<^verbatim>\<open>onload\<close> handler sets on a successful tick of a controller
  that is not paused.
\<close>

theorem load_error_keeps_cadence:
  "console (img_onerror img w) = console w @
       [ConsoleWarn (''Failed to load image: '' @
          (case src (elems w img) of None \<Rightarrow> ''undefined'' | Some p \<Rightarrow> p))]
   \<and> container (img_onerror img w) = container w
   \<and> elems (img_onerror img w) = elems w
   \<and> frames (img_onerror img w) = frames w
   \<and> timers (img_onerror img w) =
       (if truthy_id (nextImageTimeout w)
        then filter (\<lambda>t. fst t \<noteq> the (nextImageTimeout w)) (timers w) else timers w)
       @ [(Suc (nextTimer w), RotationTickAlways, transitionDuration w + displayDuration w)]
   \<and> nextImageTimeout (img_onerror img w) = Some (Suc (nextTimer w))
   \<and> (container w \<noteq> None \<and> \<not> isPaused w \<longrightarrow>
        (\<exists>w' h. img_onload now nw nh r1 r2 img w = Some w'
           \<and> nextImageTimeout w' = Some h
           \<and> last (timers w') = (h, RotationTick, transitionDuration w + displayDuration w)))"
  by (auto simp add: img_onerror_def img_onload_def setTimeout_def clearTimeout_def
      upd_elem_def Let_def split: option.splits)

theorem load_error_keeps_cadence_witness:
  "container demo_loading \<noteq> None \<and> \<not> isPaused demo_loading
   \<and> console (img_onerror 1 demo_loading) = [ConsoleWarn ''Failed to load image: b.jpg'']
   \<and> container (img_onerror 1 demo_loading) = Some [0]
   \<and> timers (img_onerror 1 demo_loading) = [(2, RotationTickAlways, 1750)]
   \<and> map_option timers (img_onload 2800 400 300 (1/2) (1/2) 1 demo_loading)
       = Some [(2, FadeOutRemoval 0, 250), (3, RotationTick, 1750)]"
  using load_error_keeps_cadence [of 1 demo_loading 2800 400 300 "1/2" "1/2"]
  by (simp add: demo_loading_eq handler_defs)

section \<open>The viewport scaler\<close>

text \<open>
  Claim C9. \<^verbatim>\<open>updateScale\<close> sets the transform of the virtual viewport to the scale
  \<open>min (innerWidth / 1024) (innerHeight / 768) 1\<close> and changes nothing else, so the value
  depends on the two window dimensions only; the script applies it when it runs on a page
  that has the viewport, on every resize, and on the timeout that follows an orientation
  change.
\<close>

theorem updateScale_min:
  "vv_transform (updateScale iw ih s) = Some (Scale (min (min (iw / 1024) (ih / 768)) 1))
   \<and> updateScale iw ih s = s\<lparr>vv_transform := Some (Scale (min (min (iw / 1024) (ih / 768)) 1))\<rparr>
   \<and> (vv_found s \<longrightarrow>
        vv_transform (viewport_scale_script iw ih s) = vv_transform (updateScale iw ih s)
      \<and> scale_listeners (viewport_scale_script iw ih s))
   \<and> (scale_listeners s \<longrightarrow>
        vv_transform (scaler_resize iw ih s) = vv_transform (updateScale iw ih s))
   \<and> (scale_listeners s \<longrightarrow>
        vv_transform (scaler_timeout iw ih (scaler_orientationchange s))
          = vv_transform (updateScale iw ih s))"
  by (simp add: updateScale_def viewport_scale_script_def scaler_resize_def
      scaler_orientationchange_def scaler_timeout_def VIRTUAL_WIDTH_def VIRTUAL_HEIGHT_def
      Let_def)

theorem updateScale_min_witness:
  "vv_found demo_scaler \<and> scale_listeners demo_scaler
   \<and> vv_transform (viewport_scale_script 512 768 demo_scaler) = Some (Scale (1/2))
   \<and> vv_transform (scaler_resize 2048 384 demo_scaler) = Some (Scale (1/2))
   \<and> vv_transform (scaler_timeout 2048 1536 (scaler_orientationchange demo_scaler))
       = Some (Scale 1)"
  using updateScale_min [of 512 768 demo_scaler] updateScale_min [of 2048 384 demo_scaler]
    updateScale_min [of 2048 1536 demo_scaler]
  by (simp add: demo_scaler_def)

section \<open>A missing container\<close>

text \<open>
  Claim C10. When the container reference is null, \<^verbatim>\<open>showNextImage\<close> only writes its
  error to the console: every field of the controller, the cursor, the permutation and
  the pending timers among them, is as before; and \<^verbatim>\<open>cleanupStuckImages\<close> changes
  nothing at all.
\<close>

theorem null_container_noop:
  "container w = None \<Longrightarrow>
   showNextImage sortRandom w =
     w\<lparr>console := console w @ [ConsoleError ''Slideshow container not found'']\<rparr>
   \<and> cleanupStuckImages now w = w"
  by (simp add: showNextImage_def cleanupStuckImages_def)

theorem null_container_noop_witness:
  "container demo_no_container = None
   \<and> currentIndex (showNextImage rev demo_no_container) = Some 0
   \<and> shuffledImages (showNextImage rev demo_no_container) = [''c.jpg'', ''b.jpg'', ''a.jpg'']
   \<and> timers (showNextImage rev demo_no_container) = []
   \<and> nextElem (showNextImage rev demo_no_container) = 0
   \<and> cleanupStuckImages 1500 demo_no_container = demo_no_container"
  using null_container_noop [of demo_no_container rev 1500]
  by (simp add: demo_no_container_eq demo_start_eq)

end
